theory Spec2Isabelle
  imports Complex_Main
begin

section \<open>Python strings\<close>

text \<open>
  A Python \<open>str\<close> is a sequence of Unicode code points. The typographic quotation marks
  that \<open>extract_json_object\<close> replaces lie outside the 8-bit range of \<^typ>\<open>char\<close>, so a
  string is modelled as the list of its code points. \<open>py\<close> turns an ASCII literal into
  such a list.
\<close>

type_synonym pystr = "nat list"

definition py :: "string \<Rightarrow> pystr" where
  "py s = map of_char s"

text \<open>\<open>str.isspace\<close> on one code point; the regular expression class \<open>\s\<close> of a
  \<open>str\<close> pattern matches the same code points.\<close>

definition isspace :: "nat \<Rightarrow> bool" where
  "isspace c \<longleftrightarrow>
     (9 \<le> c \<and> c \<le> 13) \<or> (28 \<le> c \<and> c \<le> 32) \<or> c = 133 \<or> c = 160 \<or> c = 5760 \<or>
     (8192 \<le> c \<and> c \<le> 8202) \<or> c = 8232 \<or> c = 8233 \<or> c = 8239 \<or> c = 8287 \<or> c = 12288"

text \<open>\<open>s.strip()\<close>\<close>

definition strip_py :: "pystr \<Rightarrow> pystr" where
  "strip_py s = rev (dropWhile isspace (rev (dropWhile isspace s)))"

text \<open>\<open>s.find(c)\<close> and \<open>s.rfind(c)\<close> for a one-character needle: the index of the first
  (last) occurrence, or \<open>-1\<close>.\<close>

definition find_py :: "nat \<Rightarrow> pystr \<Rightarrow> int" where
  "find_py c s = (if c \<in> set s then int (length (takeWhile (\<lambda>x. x \<noteq> c) s)) else - 1)"

definition rfind_py :: "nat \<Rightarrow> pystr \<Rightarrow> int" where
  "rfind_py c s =
     (if c \<in> set s then int (length s) - 1 - int (length (takeWhile (\<lambda>x. x \<noteq> c) (rev s)))
      else - 1)"

text \<open>\<open>s[i:j]\<close> for \<open>0 \<le> i\<close> and \<open>0 \<le> j\<close> (the only slices the program takes).\<close>

definition slice_py :: "pystr \<Rightarrow> int \<Rightarrow> int \<Rightarrow> pystr" where
  "slice_py s i j = take (nat (j - i)) (drop (nat i) s)"

text \<open>\<open>s.replace(a, b)\<close> for one-character \<open>a\<close> and \<open>b\<close>.\<close>

definition replace_py :: "nat \<Rightarrow> nat \<Rightarrow> pystr \<Rightarrow> pystr" where
  "replace_py a b s = map (\<lambda>c. if c = a then b else c) s"

text \<open>
  \<open>re.sub\<close> with the pattern \<open>,(\s*[}\] ])\<close> (written here with a blank before the last
  bracket) and the replacement \<open>\1\<close>: scanning from the left, a comma (44) followed by
  any run of whitespace and then \<open>}\<close> (125) or \<open>]\<close> (93) is dropped, the whitespace and the
  bracket are copied, and the scan goes on behind the bracket. The whitespace class and
  the bracket class are disjoint, so the greedy \<open>\s*\<close> is the longest whitespace prefix.
\<close>

function re_sub_trailing_commas :: "pystr \<Rightarrow> pystr" where
  "re_sub_trailing_commas [] = []"
| "re_sub_trailing_commas (c # cs) =
     (if c = 44 then
        (case dropWhile isspace cs of
           [] \<Rightarrow> c # re_sub_trailing_commas cs
         | b # rest \<Rightarrow>
             if b = 125 \<or> b = 93
             then takeWhile isspace cs @ b # re_sub_trailing_commas rest
             else c # re_sub_trailing_commas cs)
      else c # re_sub_trailing_commas cs)"
  by pat_completeness auto
termination
proof (relation "measure length", goal_cases)
  case 1
  show ?case by simp
next
  case (2 c cs)
  show ?case by simp
next
  case (3 c cs b rest)
  then have "length rest < length (dropWhile isspace cs)" by simp
  also have "\<dots> \<le> length cs" by (rule length_dropWhile_le)
  finally show ?case by simp
next
  case (4 c cs b rest)
  show ?case by simp
next
  case (5 c cs)
  show ?case by simp
qed

section \<open>JSON values and \<open>json.loads\<close>\<close>

text \<open>
  \<open>json.loads\<close> belongs to the Python standard library. It is modelled as a lexer and a
  pushdown parser, both running once over their input from the left. An integer literal
  becomes \<open>JInt\<close>; a literal with a fraction or an exponent, and the constants \<open>NaN\<close>,
  \<open>Infinity\<close> and \<open>-Infinity\<close> that Python accepts, become \<open>JFloat\<close> holding the literal
  (floating point values are not computed). A \<open>dict\<close> is an association list in
  insertion order, a repeated key overwriting the earlier value in place. The diagnostic
  text of a \<open>JSONDecodeError\<close> is not modelled, nor are the interpreter's limits on
  nesting depth and on the digits of an integer.
\<close>

datatype json =
    JNull
  | JBool bool
  | JInt int
  | JFloat pystr
  | JString pystr
  | JArray "json list"
  | JObject "(pystr \<times> json) list"

datatype token =
    TLBrace | TRBrace | TLBracket | TRBracket | TComma | TColon
  | TString pystr
  | TScalar json

definition isdigit :: "nat \<Rightarrow> bool" where
  "isdigit c \<longleftrightarrow> 48 \<le> c \<and> c \<le> 57"

definition digits_val :: "pystr \<Rightarrow> nat" where
  "digits_val ds = foldl (\<lambda>a c. 10 * a + (c - 48)) 0 ds"

text \<open>The optional fraction \<open>(\.[0-9]+)?\<close> and exponent \<open>([eE][-+]?[0-9]+)?\<close> of a number;
  each returns what follows it, or \<open>None\<close> where the part is begun and not finished.\<close>

definition skip_frac :: "pystr \<Rightarrow> pystr option" where
  "skip_frac r =
     (case r of
        [] \<Rightarrow> Some []
      | c # r' \<Rightarrow>
          if c = 46 then (if takeWhile isdigit r' = [] then None else Some (dropWhile isdigit r'))
          else Some r)"

definition skip_exp :: "pystr \<Rightarrow> pystr option" where
  "skip_exp r =
     (case r of
        [] \<Rightarrow> Some []
      | c # r' \<Rightarrow>
          if c = 101 \<or> c = 69 then
            (let r'' = (case r' of [] \<Rightarrow> [] | s # t \<Rightarrow> if s = 43 \<or> s = 45 then t else r')
             in if takeWhile isdigit r'' = [] then None else Some (dropWhile isdigit r''))
          else Some r)"

text \<open>A number \<open>-?(0|[1-9][0-9]*)(\.[0-9]+)?([eE][-+]?[0-9]+)?\<close> filling the whole word.\<close>

definition parse_number :: "pystr \<Rightarrow> json option" where
  "parse_number w =
     (let neg = (case w of [] \<Rightarrow> False | c # _ \<Rightarrow> c = 45);
          r0 = (if neg then tl w else w);
          ip = takeWhile isdigit r0;
          r1 = dropWhile isdigit r0
      in if ip = [] \<or> (1 < length ip \<and> hd ip = 48) then None
         else if r1 = [] then
           Some (JInt (if neg then - int (digits_val ip) else int (digits_val ip)))
         else
           (case skip_frac r1 of
              None \<Rightarrow> None
            | Some r2 \<Rightarrow>
                (case skip_exp r2 of
                   None \<Rightarrow> None
                 | Some r3 \<Rightarrow> if r3 = [] then Some (JFloat w) else None)))"

text \<open>A word of letters, digits, signs and dots is a constant or a number.\<close>

definition classify :: "pystr \<Rightarrow> json option" where
  "classify w =
     (if w = py ''true'' then Some (JBool True)
      else if w = py ''false'' then Some (JBool False)
      else if w = py ''null'' then Some JNull
      else if w = py ''NaN'' \<or> w = py ''Infinity'' \<or> w = py ''-Infinity'' then Some (JFloat w)
      else parse_number w)"

definition isbare :: "nat \<Rightarrow> bool" where
  "isbare c \<longleftrightarrow>
     isdigit c \<or> (65 \<le> c \<and> c \<le> 90) \<or> (97 \<le> c \<and> c \<le> 122) \<or> c = 43 \<or> c = 45 \<or> c = 46"

text \<open>JSON whitespace between tokens: space, tab, line feed, carriage return.\<close>

definition json_ws :: "nat \<Rightarrow> bool" where
  "json_ws c \<longleftrightarrow> c = 32 \<or> c = 9 \<or> c = 10 \<or> c = 13"

definition punct :: "nat \<Rightarrow> token option" where
  "punct c =
     (if c = 123 then Some TLBrace else if c = 125 then Some TRBrace
      else if c = 91 then Some TLBracket else if c = 93 then Some TRBracket
      else if c = 44 then Some TComma else if c = 58 then Some TColon
      else None)"

text \<open>The character after a backslash in a string, \<open>\u\<close> apart.\<close>

definition unescape :: "nat \<Rightarrow> nat option" where
  "unescape c =
     (if c = 34 \<or> c = 92 \<or> c = 47 then Some c
      else if c = 98 then Some 8 else if c = 102 then Some 12
      else if c = 110 then Some 10 else if c = 114 then Some 13
      else if c = 116 then Some 9 else None)"

definition hexval :: "nat \<Rightarrow> nat option" where
  "hexval c =
     (if isdigit c then Some (c - 48)
      else if 97 \<le> c \<and> c \<le> 102 then Some (c - 87)
      else if 65 \<le> c \<and> c \<le> 70 then Some (c - 55)
      else None)"

definition is_high :: "nat \<Rightarrow> bool" where
  "is_high v \<longleftrightarrow> 55296 \<le> v \<and> v \<le> 56319"

definition is_low :: "nat \<Rightarrow> bool" where
  "is_low v \<longleftrightarrow> 56320 \<le> v \<and> v \<le> 57343"

definition combine :: "nat \<Rightarrow> nat \<Rightarrow> nat" where
  "combine h l = 65536 + (h - 55296) * 1024 + (l - 56320)"

text \<open>
  Lexer states: between tokens; inside a word (characters so far, reversed); inside a
  string (characters so far, reversed, and whether the last one is an escaped high
  surrogate that a following \<open>\uXXXX\<close> low surrogate joins); after a backslash; inside
  the four hexadecimal digits of \<open>\u\<close>.
\<close>

datatype lstate =
    LIdle
  | LBare pystr
  | LStr pystr bool
  | LEsc pystr bool
  | LUni pystr bool "nat list"

definition emit_bare :: "pystr \<Rightarrow> token list \<Rightarrow> token list option" where
  "emit_bare w ts = (case classify (rev w) of None \<Rightarrow> None | Some v \<Rightarrow> Some (TScalar v # ts))"

definition lex_idle :: "nat \<Rightarrow> token list \<Rightarrow> (lstate \<times> token list) option" where
  "lex_idle c ts =
     (if json_ws c then Some (LIdle, ts)
      else if c = 34 then Some (LStr [] False, ts)
      else if isbare c then Some (LBare [c], ts)
      else (case punct c of None \<Rightarrow> None | Some t \<Rightarrow> Some (LIdle, t # ts)))"

fun lex_step :: "lstate \<Rightarrow> token list \<Rightarrow> nat \<Rightarrow> (lstate \<times> token list) option" where
  "lex_step LIdle ts c = lex_idle c ts"
| "lex_step (LBare w) ts c =
     (if isbare c then Some (LBare (c # w), ts)
      else (case emit_bare w ts of None \<Rightarrow> None | Some ts' \<Rightarrow> lex_idle c ts'))"
| "lex_step (LStr acc hi) ts c =
     (if c = 34 then Some (LIdle, TString (rev acc) # ts)
      else if c = 92 then Some (LEsc acc hi, ts)
      else if c < 32 then None
      else Some (LStr (c # acc) False, ts))"
| "lex_step (LEsc acc hi) ts c =
     (if c = 117 then Some (LUni acc hi [], ts)
      else (case unescape c of None \<Rightarrow> None | Some d \<Rightarrow> Some (LStr (d # acc) False, ts)))"
| "lex_step (LUni acc hi ds) ts c =
     (case hexval c of
        None \<Rightarrow> None
      | Some d \<Rightarrow>
          if length ds < 3 then Some (LUni acc hi (ds @ [d]), ts)
          else
            (let v = foldl (\<lambda>a x. 16 * a + x) 0 (ds @ [d])
             in if hi \<and> is_low v then
                  (case acc of
                     [] \<Rightarrow> None
                   | h # acc' \<Rightarrow> Some (LStr (combine h v # acc') False, ts))
                else Some (LStr (v # acc) (is_high v), ts)))"

fun lex_run :: "lstate \<Rightarrow> token list \<Rightarrow> pystr \<Rightarrow> (lstate \<times> token list) option" where
  "lex_run st ts [] = Some (st, ts)"
| "lex_run st ts (c # cs) =
     (case lex_step st ts c of None \<Rightarrow> None | Some (st', ts') \<Rightarrow> lex_run st' ts' cs)"

definition lex :: "pystr \<Rightarrow> token list option" where
  "lex s =
     (case lex_run LIdle [] s of
        None \<Rightarrow> None
      | Some (LIdle, ts) \<Rightarrow> Some (rev ts)
      | Some (LBare w, ts) \<Rightarrow> map_option rev (emit_bare w ts)
      | Some (_, ts) \<Rightarrow> None)"

text \<open>\<open>d[k] = v\<close> on a \<open>dict\<close>, and \<open>dict(pairs)\<close>.\<close>

fun dict_set :: "pystr \<Rightarrow> json \<Rightarrow> (pystr \<times> json) list \<Rightarrow> (pystr \<times> json) list" where
  "dict_set k v [] = [(k, v)]"
| "dict_set k v ((k', v') # d) = (if k = k' then (k, v) # d else (k', v') # dict_set k v d)"

definition mk_dict :: "(pystr \<times> json) list \<Rightarrow> (pystr \<times> json) list" where
  "mk_dict ps = foldl (\<lambda>d (k, v). dict_set k v d) [] ps"

text \<open>
  The parser keeps a stack of the containers that are open: an array with its elements
  so far (reversed), an object with its pairs so far (reversed), and an object whose next
  key has been read.
\<close>

datatype frame =
    FArr "json list"
  | FObj "(pystr \<times> json) list"
  | FKey "(pystr \<times> json) list" pystr

datatype expect = EValue | EValueOrClose | EKeyOrClose | EKey | EColon | ECommaOrClose

datatype pstate = PGo expect "frame list" | PDone json

fun push_value :: "json \<Rightarrow> frame list \<Rightarrow> pstate option" where
  "push_value v [] = Some (PDone v)"
| "push_value v (FArr xs # st) = Some (PGo ECommaOrClose (FArr (v # xs) # st))"
| "push_value v (FKey ps k # st) = Some (PGo ECommaOrClose (FObj ((k, v) # ps) # st))"
| "push_value v (FObj ps # st) = None"

fun start_value :: "token \<Rightarrow> frame list \<Rightarrow> pstate option" where
  "start_value (TScalar v) st = push_value v st"
| "start_value (TString s) st = push_value (JString s) st"
| "start_value TLBracket st = Some (PGo EValueOrClose (FArr [] # st))"
| "start_value TLBrace st = Some (PGo EKeyOrClose (FObj [] # st))"
| "start_value _ st = None"

fun close_array :: "frame list \<Rightarrow> pstate option" where
  "close_array (FArr xs # st) = push_value (JArray (rev xs)) st"
| "close_array _ = None"

fun close_object :: "frame list \<Rightarrow> pstate option" where
  "close_object (FObj ps # st) = push_value (JObject (mk_dict (rev ps))) st"
| "close_object _ = None"

fun read_key :: "pystr \<Rightarrow> frame list \<Rightarrow> pstate option" where
  "read_key k (FObj ps # st) = Some (PGo EColon (FKey ps k # st))"
| "read_key k _ = None"

fun after_comma :: "frame list \<Rightarrow> pstate option" where
  "after_comma (FArr xs # st) = Some (PGo EValue (FArr xs # st))"
| "after_comma (FObj ps # st) = Some (PGo EKey (FObj ps # st))"
| "after_comma _ = None"

fun pstep :: "expect \<Rightarrow> frame list \<Rightarrow> token \<Rightarrow> pstate option" where
  "pstep EValue st t = start_value t st"
| "pstep EValueOrClose st t = (if t = TRBracket then close_array st else start_value t st)"
| "pstep EKeyOrClose st t =
     (case t of TRBrace \<Rightarrow> close_object st | TString k \<Rightarrow> read_key k st | _ \<Rightarrow> None)"
| "pstep EKey st t = (case t of TString k \<Rightarrow> read_key k st | _ \<Rightarrow> None)"
| "pstep EColon st t = (if t = TColon then Some (PGo EValue st) else None)"
| "pstep ECommaOrClose st t =
     (case t of
        TComma \<Rightarrow> after_comma st
      | TRBracket \<Rightarrow> close_array st
      | TRBrace \<Rightarrow> close_object st
      | _ \<Rightarrow> None)"

fun prun :: "pstate \<Rightarrow> token list \<Rightarrow> pstate option" where
  "prun p [] = Some p"
| "prun (PDone v) (t # ts) = None"
| "prun (PGo e st) (t # ts) =
     (case pstep e st t of None \<Rightarrow> None | Some p \<Rightarrow> prun p ts)"

section \<open>Exceptions\<close>

text \<open>
  The exceptions the program raises or meets. \<open>HTTPError code reason body\<close> is
  \<open>urllib.error.HTTPError\<close> with the result of \<open>e.read().decode("utf-8")\<close> (\<open>None\<close> where
  reading raises). \<open>OtherError\<close> is any other exception of the HTTP call (a transport
  failure, a reply that is not of the expected shape). \<open>RuntimeError_token\<close> and
  \<open>RuntimeError_retries\<close> are the two \<open>RuntimeError\<close>s of \<open>call_hf_extract\<close>; the second
  carries \<open>last_err\<close>, whose two shapes are the two dictionaries the loop stores (with
  the exceptions themselves in place of their \<open>str\<close>).
\<close>

datatype exn =
    ValueError pystr
  | JSONDecodeError
  | HTTPError nat pystr "pystr option"
  | OtherError pystr
  | RuntimeError_token
  | RuntimeError_retries "last_err option"
and last_err =
    HttpDetail nat pystr pystr
  | ParseRepairDetail exn exn

definition json_loads :: "pystr \<Rightarrow> exn + json" where
  "json_loads s =
     (case lex s of
        None \<Rightarrow> Inl JSONDecodeError
      | Some ts \<Rightarrow>
          (case prun (PGo EValue []) ts of
             Some (PDone v) \<Rightarrow> Inr v
           | _ \<Rightarrow> Inl JSONDecodeError))"

section \<open>\<open>extract_json_object\<close>\<close>

definition extract_json_object :: "pystr \<Rightarrow> exn + json" where
  "extract_json_object text =
     (if text = [] then Inl (ValueError (py ''Empty model output''))
      else
        (let start = find_py 123 text;
             end = rfind_py 125 text
         in if start = - 1 \<or> end = - 1 \<or> end \<le> start
            then Inl (ValueError (py ''No JSON object found in output: '' @ take 500 text))
            else
              (let candidate = strip_py (slice_py text start (end + 1));
                   candidate = re_sub_trailing_commas candidate;
                   candidate = replace_py 8217 39 (replace_py 8221 34 (replace_py 8220 34 candidate))
               in json_loads candidate)))"

section \<open>The Model Client\<close>

text \<open>
  A chat message is a role and a content. What the remote endpoint answers is outside
  the program: \<open>client ev n ms\<close> is the outcome of the \<open>n\<close>-th request (counted from 0)
  of an invocation, sent with the messages \<open>ms\<close>: the text of
  \<open>data["choices"][0]["message"]["content"]\<close>, an \<open>HTTPError\<close>, or any other exception
  of \<open>urlopen\<close> and of decoding the reply. \<open>rng ev n\<close> is the \<open>n\<close>-th value of
  \<open>random.random()\<close>, as a real number. \<open>token ev\<close> is the environment variable
  \<open>HF_API_TOKEN\<close>. The model name, the temperature and the token cap of the payload are
  the same in every request and are left out.
\<close>

type_synonym message = "pystr \<times> pystr"

datatype reply =
    Content pystr
  | HttpFail nat pystr "pystr option"
  | OtherFail pystr

record env =
  token :: "pystr option"
  client :: "nat \<Rightarrow> message list \<Rightarrow> reply"
  rng :: "nat \<Rightarrow> real"

text \<open>What an invocation does to the outside: the requests sent, the seconds slept, the
  objects written to the bucket, each in order. \<open>print\<close> is not modelled.\<close>

datatype artifact =
    TextFile pystr
  | Metadata pystr nat nat
  | StructuredRecord json
  | ErrorReport pystr exn pystr pystr

record world =
  requests :: "message list list"
  sleeps :: "real list"
  puts :: "(pystr \<times> artifact) list"

definition hf_chat :: "env \<Rightarrow> message list \<Rightarrow> world \<Rightarrow> (exn + pystr) \<times> world" where
  "hf_chat ev messages w =
     (let w' = w\<lparr>requests := requests w @ [messages]\<rparr>
      in case client ev (length (requests w)) messages of
           Content s \<Rightarrow> (Inr (strip_py s), w')
         | HttpFail code reason body \<Rightarrow> (Inl (HTTPError code reason body), w')
         | OtherFail m \<Rightarrow> (Inl (OtherError m), w'))"

section \<open>\<open>call_hf_extract\<close>\<close>

text \<open>The f-string of the user message up to \<open>{text}\<close>, with \<open>{{\<close> and \<open>}}\<close> read as braces.\<close>

definition prompt_head :: pystr where
  "prompt_head =
        py ''\<newline>'' @
        py ''Return ONLY valid JSON.\<newline>'' @
        py ''\<newline>'' @
        py ''Schema:\<newline>'' @
        py ''{\<newline>'' @
        py ''  \"document_type\": \"resume|invoice|homework|research_paper|other\",\<newline>'' @
        py ''  \"title\": null,\<newline>'' @
        py ''  \"summary\": \"\",\<newline>'' @
        py ''  \"key_points\": [],\<newline>'' @
        py ''  \"entities\": {\<newline>'' @
        py ''    \"people\": [],\<newline>'' @
        py ''    \"emails\": [],\<newline>'' @
        py ''    \"phone_numbers\": [],\<newline>'' @
        py ''    \"organizations\": [],\<newline>'' @
        py ''    \"dates\": [],\<newline>'' @
        py ''    \"amounts\": [],\<newline>'' @
        py ''    \"locations\": []\<newline>'' @
        py ''  },\<newline>'' @
        py ''  \"fields\": {\<newline>'' @
        py ''    \"resume\": {\<newline>'' @
        py ''      \"candidate_name\": null,\<newline>'' @
        py ''      \"skills\": [],\<newline>'' @
        py ''      \"education\": [],\<newline>'' @
        py ''      \"experience\": []\<newline>'' @
        py ''    },\<newline>'' @
        py ''    \"invoice\": {\<newline>'' @
        py ''      \"invoice_number\": null,\<newline>'' @
        py ''      \"vendor\": null,\<newline>'' @
        py ''      \"invoice_date\": null,\<newline>'' @
        py ''      \"total_amount\": null\<newline>'' @
        py ''    }\<newline>'' @
        py ''  }\<newline>'' @
        py ''}\<newline>'' @
        py ''\<newline>'' @
        py ''Document text:\<newline>''"

definition base_messages :: "pystr \<Rightarrow> message list" where
  "base_messages text =
     [(py ''system'',
       py ''Return ONLY valid JSON. No markdown, no comments, no trailing commas, no extra text.''),
      (py ''user'', strip_py (prompt_head @ text @ py ''\<newline>''))]"

definition repair_messages :: "pystr \<Rightarrow> message list" where
  "repair_messages raw_output =
     [(py ''system'',
       py ''You are a JSON repair bot. Return ONLY valid JSON. No markdown, no extra text.''),
      (py ''user'',
       py ''Fix this to be valid JSON and return ONLY the JSON:\<newline>\<newline>'' @ raw_output)]"

definition retryable :: "nat \<Rightarrow> bool" where
  "retryable code \<longleftrightarrow> code = 429 \<or> code = 500 \<or> code = 502 \<or> code = 503 \<or> code = 504"

text \<open>\<open>sleep_s = base_delay * (2 ** (attempt - 1)) + random.random()\<close> with
  \<open>base_delay = 1.0\<close>, then \<open>time.sleep(sleep_s)\<close>.\<close>

definition backoff_sleep :: "env \<Rightarrow> nat \<Rightarrow> world \<Rightarrow> world" where
  "backoff_sleep ev attempt w =
     w\<lparr>sleeps := sleeps w @ [1 * 2 ^ (attempt - 1) + rng ev (length (sleeps w))]\<rparr>"

text \<open>How one pass through the loop body ends: \<open>return\<close>, an exception that leaves the
  function, or the next iteration with \<open>last_err\<close> set.\<close>

datatype outcome =
    Return "json \<times> pystr"
  | Raise exn
  | Continue last_err

text \<open>The handler \<open>except Exception as e\<close>: one repair request; whatever fails in it is
  recorded with \<open>e\<close>, followed by the backoff sleep.\<close>

definition repair_pass :: "env \<Rightarrow> nat \<Rightarrow> exn \<Rightarrow> pystr \<Rightarrow> world \<Rightarrow> outcome \<times> world" where
  "repair_pass ev attempt e raw_output w =
     (case hf_chat ev (repair_messages raw_output) w of
        (Inl e2, w1) \<Rightarrow> (Continue (ParseRepairDetail e e2), backoff_sleep ev attempt w1)
      | (Inr repaired, w1) \<Rightarrow>
          (case extract_json_object repaired of
             Inr structured \<Rightarrow> (Return (structured, repaired), w1)
           | Inl e2 \<Rightarrow> (Continue (ParseRepairDetail e e2), backoff_sleep ev attempt w1)))"

text \<open>The loop body. An \<open>HTTPError\<close> of the first request goes to the first handler;
  every other exception of the \<open>try\<close> block, raised by \<open>hf_chat\<close> (then \<open>raw_output\<close> is
  still \<open>""\<close>) or by \<open>extract_json_object\<close>, goes to the second.\<close>

definition attempt_body :: "env \<Rightarrow> pystr \<Rightarrow> nat \<Rightarrow> world \<Rightarrow> outcome \<times> world" where
  "attempt_body ev text attempt w =
     (case hf_chat ev (base_messages text) w of
        (Inl e, w1) \<Rightarrow>
          (case e of
             HTTPError code reason body \<Rightarrow>
               if retryable code
               then (Continue (HttpDetail code reason (case body of None \<Rightarrow> [] | Some b \<Rightarrow> b)),
                     backoff_sleep ev attempt w1)
               else (Raise e, w1)
           | _ \<Rightarrow> repair_pass ev attempt e [] w1)
      | (Inr raw_output, w1) \<Rightarrow>
          (case extract_json_object raw_output of
             Inr structured \<Rightarrow> (Return (structured, raw_output), w1)
           | Inl e \<Rightarrow> repair_pass ev attempt e raw_output w1))"

text \<open>\<open>for attempt in range(1, max_attempts + 1)\<close>, and the \<open>raise\<close> behind the loop.\<close>

fun attempts_loop ::
  "env \<Rightarrow> pystr \<Rightarrow> nat list \<Rightarrow> last_err option \<Rightarrow> world \<Rightarrow> (exn + json \<times> pystr) \<times> world"
where
  "attempts_loop ev text [] last_err w = (Inl (RuntimeError_retries last_err), w)"
| "attempts_loop ev text (attempt # rest) last_err w =
     (case attempt_body ev text attempt w of
        (Return r, w') \<Rightarrow> (Inr r, w')
      | (Raise e, w') \<Rightarrow> (Inl e, w')
      | (Continue le, w') \<Rightarrow> attempts_loop ev text rest (Some le) w')"

definition max_attempts :: nat where
  "max_attempts = 3"

definition call_hf_extract :: "env \<Rightarrow> pystr \<Rightarrow> world \<Rightarrow> (exn + json \<times> pystr) \<times> world" where
  "call_hf_extract ev text w =
     (if token ev = None \<or> token ev = Some [] then (Inl RuntimeError_token, w)
      else attempts_loop ev (take 8000 text) [1 ..< max_attempts + 1] None w)"

section \<open>\<open>lambda_handler\<close>\<close>

definition startswith_py :: "pystr \<Rightarrow> pystr \<Rightarrow> bool" where
  "startswith_py p s \<longleftrightarrow> take (length p) s = p"

definition endswith_py :: "pystr \<Rightarrow> pystr \<Rightarrow> bool" where
  "endswith_py p s \<longleftrightarrow> length p \<le> length s \<and> drop (length s - length p) s = p"

text \<open>\<open>s.lower()\<close> on the letters A to Z. The program only asks whether the lowered key
  ends with \<open>.pdf\<close>, and no other code point lowers to one of these four characters.\<close>

definition lower_py :: "pystr \<Rightarrow> pystr" where
  "lower_py s = map (\<lambda>c. if 65 \<le> c \<and> c \<le> 90 then c + 32 else c) s"

text \<open>\<open>sep.join(xs)\<close>\<close>

fun join_py :: "pystr \<Rightarrow> pystr list \<Rightarrow> pystr" where
  "join_py sep [] = []"
| "join_py sep [x] = x"
| "join_py sep (x # y # ys) = x @ sep @ join_py sep (y # ys)"

text \<open>\<open>key.split("/")[-1].rsplit(".", 1)[0]\<close>\<close>

definition base_name_of :: "pystr \<Rightarrow> pystr" where
  "base_name_of key =
     (let seg = rev (takeWhile (\<lambda>c. c \<noteq> 47) (rev key))
      in if 46 \<in> set seg then rev (tl (dropWhile (\<lambda>c. c \<noteq> 46) (rev seg))) else seg)"

definition text_key :: "pystr \<Rightarrow> pystr" where
  "text_key key = py ''processed/'' @ base_name_of key @ py ''.txt''"

definition meta_key :: "pystr \<Rightarrow> pystr" where
  "meta_key key = py ''processed/'' @ base_name_of key @ py ''.json''"

definition structured_key :: "pystr \<Rightarrow> pystr" where
  "structured_key key = py ''processed/'' @ base_name_of key @ py ''.structured.json''"

definition err_key :: "pystr \<Rightarrow> pystr" where
  "err_key key = py ''processed/'' @ base_name_of key @ py ''.structured.error.json''"

definition source_pdf :: "pystr \<Rightarrow> pystr \<Rightarrow> pystr" where
  "source_pdf bucket key = py ''s3://'' @ bucket @ py ''/'' @ key"

definition hint :: pystr where
  "hint = py ''If HF returns 429/503, it may be busy. Try later or use a smaller PDF.''"

definition put_object :: "pystr \<Rightarrow> artifact \<Rightarrow> world \<Rightarrow> world" where
  "put_object k a w = w\<lparr>puts := puts w @ [(k, a)]\<rparr>"

text \<open>The pages whose text is kept, joined: \<open>pages\<close> holds what \<open>page.extract_text()\<close>
  returns for each page of the document, in order (\<open>None\<close> or a string).\<close>

definition extracted_text_of :: "pystr option list \<Rightarrow> pystr" where
  "extracted_text_of pages =
     join_py (py ''\<newline>\<newline>'')
       (filter (\<lambda>t. strip_py t \<noteq> []) (map (\<lambda>p. case p of None \<Rightarrow> [] | Some t \<Rightarrow> t) pages))"

datatype response = Response nat pystr

text \<open>
  The handler, given the bucket and the decoded key of the event and the pages that
  the PDF reader finds in the object. Reading the object, the PDF reader and
  \<open>put_object\<close> are taken not to raise, and the page strings to be text that
  \<open>encode("utf-8")\<close> accepts (no lone surrogates). In the \<open>except\<close> branch \<open>raw_llm_output\<close> still
  has the value \<open>None\<close> it was given before the \<open>try\<close>: it is assigned together with
  \<open>structured\<close>, only once \<open>call_hf_extract\<close> has returned.
\<close>

definition lambda_handler ::
  "env \<Rightarrow> pystr \<Rightarrow> pystr \<Rightarrow> pystr option list \<Rightarrow> world \<Rightarrow> response \<times> world"
where
  "lambda_handler ev bucket key pages w =
     (if \<not> startswith_py (py ''raw/'') key \<or> \<not> endswith_py (py ''.pdf'') (lower_py key)
      then (Response 200 (py ''skipped''), w)
      else
        (let extracted_text = extracted_text_of pages;
             w1 = put_object (text_key key) (TextFile extracted_text) w;
             w2 = put_object (meta_key key)
                    (Metadata (source_pdf bucket key) (length pages) (length extracted_text)) w1
         in if length (strip_py extracted_text) = 0
            then (Response 200 (py ''no_text''), w2)
            else
              (let raw_llm_output = (None :: pystr option)
               in case call_hf_extract ev extracted_text w2 of
                    (Inr (structured, raw), w3) \<Rightarrow>
                      (Response 200 (py ''processed_with_llm''),
                       put_object (structured_key key) (StructuredRecord structured) w3)
                  | (Inl e, w3) \<Rightarrow>
                      (Response 200 (py ''processed_but_llm_failed''),
                       put_object (err_key key)
                         (ErrorReport (source_pdf bucket key) e hint
                            (take 2000 (case raw_llm_output of None \<Rightarrow> [] | Some r \<Rightarrow> r)))
                         w3))))"

section \<open>Observations and test doubles\<close>

text \<open>The world before an invocation has done anything.\<close>

definition world0 :: world where
  "world0 = \<lparr>requests = [], sleeps = [], puts = []\<rparr>"


text \<open>A Model Client that answers every request with HTTP 400.\<close>

definition stub_400 :: env where
  "stub_400 = \<lparr>token = Some (py ''hf_x''),
               client = (\<lambda>n ms. HttpFail 400 (py ''Bad Request'') None),
               rng = (\<lambda>n. 1 / 2)\<rparr>"


text \<open>A Model Client whose every reply has no JSON object in it.\<close>

definition stub_garbage :: env where
  "stub_garbage =
     \<lparr>token = Some (py ''hf_x''),
      client = (\<lambda>n ms. Content (py ''not json'')),
      rng = (\<lambda>n. 1 / 4)\<rparr>"

text \<open>A Model Client whose first request times out and whose later replies are \<open>{}\<close>.\<close>

definition stub_timeout_then_json :: env where
  "stub_timeout_then_json =
     \<lparr>token = Some (py ''hf_x''),
      client = (\<lambda>n ms. if n = 0 then OtherFail (py ''timed out'') else Content (py ''{}'')),
      rng = (\<lambda>n. 1 / 2)\<rparr>"

text \<open>The structured records and error reports among the objects written between two
  worlds.\<close>

definition is_result :: "artifact \<Rightarrow> bool" where
  "is_result a = (case a of StructuredRecord j \<Rightarrow> True | ErrorReport s e h r \<Rightarrow> True | _ \<Rightarrow> False)"

definition produced :: "world \<Rightarrow> world \<Rightarrow> (pystr \<times> artifact) list" where
  "produced w w' = filter (\<lambda>(k, a). is_result a) (drop (length (puts w)) (puts w'))"

text \<open>A Model Client whose every reply is \<open>{}\<close>.\<close>

definition stub_json :: env where
  "stub_json =
     \<lparr>token = Some (py ''hf_x''),
      client = (\<lambda>n ms. Content (py ''{}'')),
      rng = (\<lambda>n. 1 / 2)\<rparr>"




section \<open>Auxiliary facts\<close>


lemmas eval_defs =
  py_def find_py_def rfind_py_def slice_py_def strip_py_def isspace_def
  replace_py_def json_loads_def lex_def lex_idle_def json_ws_def isbare_def isdigit_def punct_def
  emit_bare_def classify_def parse_number_def skip_frac_def skip_exp_def digits_val_def mk_dict_def
  unescape_def hexval_def

lemma attempts_range: "[1 ..< max_attempts + 1] = [1, 2, 3]"
  by (simp add: max_attempts_def upt_rec)

lemma call_hf_extract_unfold:
  "call_hf_extract ev text w =
     (if token ev = None \<or> token ev = Some [] then (Inl RuntimeError_token, w)
      else attempts_loop ev (take 8000 text) [1, 2, 3] None w)"
  unfolding call_hf_extract_def attempts_range by (rule refl)

lemma find_py_absent: "c \<notin> set s \<Longrightarrow> find_py c s = - 1"
  by (simp add: find_py_def)

lemma rfind_py_absent: "c \<notin> set s \<Longrightarrow> rfind_py c s = - 1"
  by (simp add: rfind_py_def)

lemma hf_chat_world:
  "hf_chat ev ms w = (r, w') \<Longrightarrow> w' = w\<lparr>requests := requests w @ [ms]\<rparr>"
  by (auto simp add: hf_chat_def Let_def split: reply.splits)


lemma repair_pass_world:
  assumes "repair_pass ev n e raw w = (out, w')"
  shows "requests w' = requests w @ [repair_messages raw]"
    and "puts w' = puts w"
    and "sleeps w' = (case out of Continue le \<Rightarrow> sleeps w @ [1 * 2 ^ (n - 1) + rng ev (length (sleeps w))]
                      | _ \<Rightarrow> sleeps w)"
    and "out \<noteq> Raise x"
  using assms
  by (auto simp add: repair_pass_def hf_chat_def backoff_sleep_def Let_def
      split: reply.splits sum.splits)

lemma attempt_body_world:
  assumes "attempt_body ev t n w = (out, w')"
  shows "requests w' = requests w @ [base_messages t] \<or>
         (\<exists>raw. requests w' = requests w @ [base_messages t, repair_messages raw])"
    and "puts w' = puts w"
    and "sleeps w' = (case out of Continue le \<Rightarrow> sleeps w @ [1 * 2 ^ (n - 1) + rng ev (length (sleeps w))]
                      | _ \<Rightarrow> sleeps w)"
    and "out = Raise x \<Longrightarrow> \<exists>c r b. x = HTTPError c r b"
  using assms
  by (auto simp add: attempt_body_def repair_pass_def hf_chat_def backoff_sleep_def Let_def
      split: reply.splits sum.splits if_splits)



lemma attempts_loop_puts:
  "attempts_loop ev t ns le w = (r, w') \<Longrightarrow> puts w' = puts w"
proof (induction ns arbitrary: le w)
  case Nil
  then show ?case by simp
next
  case (Cons n ns)
  obtain out w1 where a: "attempt_body ev t n w = (out, w1)" by (cases "attempt_body ev t n w")
  have p: "puts w1 = puts w" by (rule attempt_body_world(2) [OF a])
  show ?case
  proof (cases out)
    case (Return x)
    with Cons.prems a p show ?thesis by simp
  next
    case (Raise x)
    with Cons.prems a p show ?thesis by simp
  next
    case (Continue x)
    with Cons.prems a have "attempts_loop ev t ns (Some x) w1 = (r, w')" by simp
    from Cons.IH [OF this] p show ?thesis by simp
  qed
qed

lemma call_hf_extract_puts:
  "call_hf_extract ev text w = (r, w') \<Longrightarrow> puts w' = puts w"
  by (auto simp add: call_hf_extract_def split: if_splits dest: attempts_loop_puts)


lemma attempt_success:
  assumes "client ev (length (requests w)) (base_messages t) = Content s"
    and "extract_json_object (strip_py s) = Inr j"
  shows "attempt_body ev t n w =
           (Return (j, strip_py s), w\<lparr>requests := requests w @ [base_messages t]\<rparr>)"
  using assms by (simp add: attempt_body_def hf_chat_def)





lemma call_hf_extract_no_token:
  "token ev = None \<or> token ev = Some [] \<Longrightarrow> call_hf_extract ev text w = (Inl RuntimeError_token, w)"
  by (simp add: call_hf_extract_def)

lemmas handler_defs =
  lambda_handler_def startswith_py_def endswith_py_def lower_py_def extracted_text_of_def
  base_name_of_def text_key_def meta_key_def structured_key_def err_key_def source_pdf_def
  put_object_def

lemma extract_empty_object: "extract_json_object (strip_py (py ''{}'')) = Inr (JObject [])"
  by (simp add: extract_json_object_def eval_defs)

lemma extract_not_json:
  "extract_json_object (strip_py (py ''not json'')) =
     Inl (ValueError (py ''No JSON object found in output: not json''))"
  by (simp add: extract_json_object_def eval_defs)

lemma call_stub_json:
  "call_hf_extract stub_json text w =
     (Inr (JObject [], strip_py (py ''{}'')), w\<lparr>requests := requests w @ [base_messages (take 8000 text)]\<rparr>)"
  using extract_empty_object
  by (simp add: call_hf_extract_unfold attempt_body_def hf_chat_def stub_json_def py_def)

lemma call_stub_garbage:
  "call_hf_extract stub_garbage text w =
     (Inl (RuntimeError_retries (Some (ParseRepairDetail
        (ValueError (py ''No JSON object found in output: not json''))
        (ValueError (py ''No JSON object found in output: not json''))))),
      w\<lparr>requests := requests w @
           [base_messages (take 8000 text), repair_messages (strip_py (py ''not json'')),
            base_messages (take 8000 text), repair_messages (strip_py (py ''not json'')),
            base_messages (take 8000 text), repair_messages (strip_py (py ''not json''))],
        sleeps := sleeps w @ [1 + 1 / 4, 2 + 1 / 4, 4 + 1 / 4]\<rparr>)"
  using extract_not_json
  by (simp add: call_hf_extract_unfold attempt_body_def repair_pass_def hf_chat_def
      backoff_sleep_def stub_garbage_def py_def)

lemma handler_stub_json:
  "lambda_handler stub_json (py ''bkt'') (py ''raw/a.pdf'') [Some (py ''hello'')] world0 =
     (Response 200 (py ''processed_with_llm''),
      \<lparr>requests = [base_messages (py ''hello'')], sleeps = [],
       puts = [(py ''processed/a.txt'', TextFile (py ''hello'')),
               (py ''processed/a.json'', Metadata (py ''s3://bkt/raw/a.pdf'') 1 5),
               (py ''processed/a.structured.json'', StructuredRecord (JObject []))]\<rparr>)"
  by (simp add: handler_defs Let_def call_stub_json world0_def py_def strip_py_def isspace_def)

lemma handler_blank:
  "lambda_handler stub_json (py ''bkt'') (py ''raw/a.pdf'') [None, Some (py '' '')] world0 =
     (Response 200 (py ''no_text''),
      \<lparr>requests = [], sleeps = [],
       puts = [(py ''processed/a.txt'', TextFile []),
               (py ''processed/a.json'', Metadata (py ''s3://bkt/raw/a.pdf'') 2 0)]\<rparr>)"
  by (simp add: handler_defs Let_def world0_def py_def strip_py_def isspace_def)

lemma handler_stub_garbage:
  "lambda_handler stub_garbage (py ''bkt'') (py ''raw/a.pdf'') [Some (py ''hello'')] world0 =
     (Response 200 (py ''processed_but_llm_failed''),
      \<lparr>requests = [base_messages (py ''hello''), repair_messages (py ''not json''),
                   base_messages (py ''hello''), repair_messages (py ''not json''),
                   base_messages (py ''hello''), repair_messages (py ''not json'')],
       sleeps = [5 / 4, 9 / 4, 17 / 4],
       puts = [(py ''processed/a.txt'', TextFile (py ''hello'')),
               (py ''processed/a.json'', Metadata (py ''s3://bkt/raw/a.pdf'') 1 5),
               (py ''processed/a.structured.error.json'',
                ErrorReport (py ''s3://bkt/raw/a.pdf'')
                  (RuntimeError_retries (Some (ParseRepairDetail
                     (ValueError (py ''No JSON object found in output: not json''))
                     (ValueError (py ''No JSON object found in output: not json'')))))
                  hint [])]\<rparr>)"
  by (simp add: handler_defs Let_def call_stub_garbage world0_def py_def strip_py_def isspace_def)

lemma strip_py_core:
  assumes "\<forall>x\<in>set l. isspace x" and "\<forall>x\<in>set r. isspace x"
    and "\<not> isspace a" and "\<not> isspace c"
  shows "strip_py (l @ a # m @ c # r) = a # m @ [c]"
proof -
  from assms(1,3) have "dropWhile isspace (l @ a # m @ c # r) = a # m @ c # r"
    by (simp add: dropWhile_append3)
  moreover have "rev (a # m @ c # r) = rev r @ c # rev m @ [a]" by simp
  moreover from assms(2,4) have "dropWhile isspace (rev r @ c # rev m @ [a]) = c # rev m @ [a]"
    by (simp add: dropWhile_append3)
  ultimately show ?thesis by (simp add: strip_py_def)
qed

lemma prompt_head_starts: "\<exists>h. prompt_head = 10 # 82 # h"
  by (simp add: prompt_head_def py_def)

lemma attempts_loop_appends:
  "attempts_loop ev t ns le w = (r, w') \<Longrightarrow> \<exists>more. requests w' = requests w @ more"
proof (induction ns arbitrary: le w)
  case Nil
  then show ?case by simp
next
  case (Cons n ns)
  obtain out w1 where a: "attempt_body ev t n w = (out, w1)" by (cases "attempt_body ev t n w")
  from attempt_body_world(1) [OF a] obtain m1 where p: "requests w1 = requests w @ m1" by auto
  show ?case
  proof (cases out)
    case (Return x)
    with Cons.prems a p show ?thesis by simp
  next
    case (Raise x)
    with Cons.prems a p show ?thesis by simp
  next
    case (Continue x)
    with Cons.prems a have "attempts_loop ev t ns (Some x) w1 = (r, w')" by simp
    from Cons.IH [OF this] p show ?thesis by auto
  qed
qed

lemma attempts_loop_first_request:
  assumes "attempts_loop ev t (n # ns) le w = (r, w')"
  shows "\<exists>more. requests w' = requests w @ base_messages t # more"
proof -
  obtain out w1 where a: "attempt_body ev t n w = (out, w1)" by (cases "attempt_body ev t n w")
  from attempt_body_world(1) [OF a] obtain m1 where p: "requests w1 = requests w @ base_messages t # m1"
    by auto
  show ?thesis
  proof (cases out)
    case (Return x)
    with assms a p show ?thesis by simp
  next
    case (Raise x)
    with assms a p show ?thesis by simp
  next
    case (Continue x)
    with assms a have "attempts_loop ev t ns (Some x) w1 = (r, w')" by simp
    from attempts_loop_appends [OF this] p show ?thesis by auto
  qed
qed







section \<open>Claims\<close>

subsection \<open>C6: no brace pair\<close>

text \<open>
  C6. Where the text has no \<open>{\<close>, or no \<open>}\<close>, or its last \<open>}\<close> lies before its first
  \<open>{\<close>, \<open>extract_json_object\<close> fails with the \<open>ValueError\<close> of its own guards (the
  "no JSON found" failure; for the empty text the message is \<open>Empty model output\<close>), and
  with no other exception.
\<close>

theorem extract_json_object_no_braces:
  assumes "123 \<notin> set text \<or> 125 \<notin> set text \<or> rfind_py 125 text < find_py 123 text"
  shows "extract_json_object text =
           Inl (ValueError (if text = [] then py ''Empty model output''
                            else py ''No JSON object found in output: '' @ take 500 text))"
  using assms
  by (auto simp add: extract_json_object_def Let_def find_py_absent rfind_py_absent)

theorem extract_json_object_no_braces_witness:
  "rfind_py 125 (py ''} {'') < find_py 123 (py ''} {'') \<and>
   extract_json_object (py ''} {'') = Inl (ValueError (py ''No JSON object found in output: } {''))"
  using extract_json_object_no_braces [of "py ''} {''"]
  by (simp add: py_def find_py_def rfind_py_def)

subsection \<open>C3: a fatal HTTP status\<close>

text \<open>
  C3. If the first request is answered with an HTTP error whose status is none of 429,
  500, 502, 503, 504, \<open>call_hf_extract\<close> raises that very error: one request has been
  sent, nothing has been slept, no further attempt is made.
\<close>

theorem fatal_http_error_aborts:
  assumes "token ev = Some tk" and "tk \<noteq> []"
    and "client ev (length (requests w)) (base_messages (take 8000 text)) = HttpFail code reason body"
    and "code \<notin> {429, 500, 502, 503, 504}"
  shows "call_hf_extract ev text w =
           (Inl (HTTPError code reason body),
            w\<lparr>requests := requests w @ [base_messages (take 8000 text)]\<rparr>)"
  using assms
  by (simp add: call_hf_extract_unfold attempt_body_def hf_chat_def retryable_def)

theorem fatal_http_error_aborts_witness:
  "call_hf_extract stub_400 (py ''doc'') world0 =
     (Inl (HTTPError 400 (py ''Bad Request'') None),
      \<lparr>requests = [base_messages (py ''doc'')], sleeps = [], puts = []\<rparr>)"
  using fatal_http_error_aborts [of stub_400 "py ''hf_x''" world0 "py ''doc''" 400 "py ''Bad Request''" None]
  by (simp add: stub_400_def world0_def py_def)

subsection \<open>C2: three attempts with backoff\<close>



subsection \<open>C10: the sleep after the last attempt\<close>



subsection \<open>C7: when the repair request is sent\<close>

text \<open>
  C7. The claim has the repair request sent only after a reply that failed to parse. The
  handler that sends it catches every exception other than \<open>HTTPError\<close>: here the first
  request times out, no reply exists, and a repair request with an empty text to fix
  follows in the same attempt (and, the stub answering \<open>{}\<close>, is returned as the result).
\<close>

theorem repair_after_transport_failure:
  "attempt_body stub_timeout_then_json (py ''doc'') 1 world0 =
     (Return (JObject [], py ''{}''),
      \<lparr>requests = [base_messages (py ''doc''), repair_messages [] ], sleeps = [], puts = []\<rparr>)"
proof -
  have ex: "extract_json_object (strip_py (py ''{}'')) = Inr (JObject [])"
    by (simp add: extract_json_object_def eval_defs)
  have st: "strip_py (py ''{}'') = py ''{}''"
    by (simp add: strip_py_def py_def isspace_def)
  show ?thesis
    using ex
    by (simp add: attempt_body_def repair_pass_def hf_chat_def stub_timeout_then_json_def world0_def st)
qed

subsection \<open>C1: one structured record or one error report\<close>

text \<open>
  C1. For a key that the handler processes: if the extracted text is not empty after
  trimming, the invocation writes exactly one object that is a structured record or an
  error report, the record under \<open>processed/<base>.structured.json\<close> or the report under
  \<open>processed/<base>.structured.error.json\<close>; if it is empty after trimming, it writes
  neither, sends no request and does not sleep.
\<close>

theorem exactly_one_structured_or_error:
  assumes "startswith_py (py ''raw/'') key" and "endswith_py (py ''.pdf'') (lower_py key)"
    and "lambda_handler ev bucket key pages w = (resp, w')"
  shows "(strip_py (extracted_text_of pages) \<noteq> [] \<longrightarrow>
            ((\<exists>j. produced w w' = [(structured_key key, StructuredRecord j)]) \<or>
             (\<exists>e s. produced w w' = [(err_key key, ErrorReport (source_pdf bucket key) e hint s)]))) \<and>
         (strip_py (extracted_text_of pages) = [] \<longrightarrow>
            produced w w' = [] \<and> requests w' = requests w \<and> sleeps w' = sleeps w)"
proof (intro conjI impI)
  assume nb: "strip_py (extracted_text_of pages) \<noteq> []"
  define w2 where "w2 = put_object (meta_key key)
      (Metadata (source_pdf bucket key) (length pages) (length (extracted_text_of pages)))
      (put_object (text_key key) (TextFile (extracted_text_of pages)) w)"
  obtain r w3 where c: "call_hf_extract ev (extracted_text_of pages) w2 = (r, w3)"
    by (cases "call_hf_extract ev (extracted_text_of pages) w2")
  have p3: "puts w3 = puts w @ [(text_key key, TextFile (extracted_text_of pages)),
      (meta_key key, Metadata (source_pdf bucket key) (length pages) (length (extracted_text_of pages)))]"
    using call_hf_extract_puts [OF c] by (simp add: w2_def put_object_def)
  show "(\<exists>j. produced w w' = [(structured_key key, StructuredRecord j)]) \<or>
        (\<exists>e s. produced w w' = [(err_key key, ErrorReport (source_pdf bucket key) e hint s)])"
  proof (cases r)
    case (Inl e)
    with assms nb c have "w' = put_object (err_key key)
        (ErrorReport (source_pdf bucket key) e hint []) w3"
      by (simp add: lambda_handler_def Let_def w2_def)
    with p3 show ?thesis by (simp add: produced_def put_object_def is_result_def)
  next
    case (Inr x)
    obtain j raw where x: "x = (j, raw)" by (cases x)
    with Inr assms nb c have "w' = put_object (structured_key key) (StructuredRecord j) w3"
      by (simp add: lambda_handler_def Let_def w2_def)
    with p3 show ?thesis by (simp add: produced_def put_object_def is_result_def)
  qed
next
  assume b: "strip_py (extracted_text_of pages) = []"
  with assms have "w' = put_object (meta_key key)
      (Metadata (source_pdf bucket key) (length pages) (length (extracted_text_of pages)))
      (put_object (text_key key) (TextFile (extracted_text_of pages)) w)"
    by (simp add: lambda_handler_def Let_def)
  then show "produced w w' = []" and "requests w' = requests w" and "sleeps w' = sleeps w"
    by (simp_all add: produced_def put_object_def is_result_def)
qed

theorem exactly_one_structured_or_error_witness:
  "produced world0 (snd (lambda_handler stub_json (py ''bkt'') (py ''raw/a.pdf'') [Some (py ''hello'')] world0)) =
     [(py ''processed/a.structured.json'', StructuredRecord (JObject []))] \<and>
   produced world0 (snd (lambda_handler stub_json (py ''bkt'') (py ''raw/a.pdf'') [None, Some (py '' '')] world0)) = [] \<and>
   requests (snd (lambda_handler stub_json (py ''bkt'') (py ''raw/a.pdf'') [None, Some (py '' '')] world0)) = []"
proof -
  have k: "startswith_py (py ''raw/'') (py ''raw/a.pdf'')"
    "endswith_py (py ''.pdf'') (lower_py (py ''raw/a.pdf''))"
    by (simp_all add: startswith_py_def endswith_py_def lower_py_def py_def)
  have t1: "strip_py (extracted_text_of [Some (py ''hello'')]) \<noteq> []"
    by (simp add: extracted_text_of_def strip_py_def isspace_def py_def)
  have t2: "strip_py (extracted_text_of [None, Some (py '' '')]) = []"
    by (simp add: extracted_text_of_def strip_py_def isspace_def py_def)
  have s: "structured_key (py ''raw/a.pdf'') = py ''processed/a.structured.json''"
    "err_key (py ''raw/a.pdf'') = py ''processed/a.structured.error.json''"
    by (simp_all add: structured_key_def err_key_def base_name_of_def py_def)
  from exactly_one_structured_or_error [OF k handler_stub_json] t1
  have a: "produced world0 (snd (lambda_handler stub_json (py ''bkt'') (py ''raw/a.pdf'')
              [Some (py ''hello'')] world0)) =
            [(py ''processed/a.structured.json'', StructuredRecord (JObject []))]"
    unfolding handler_stub_json s
    by (simp add: produced_def is_result_def world0_def)
  from exactly_one_structured_or_error [OF k handler_blank] t2
  have b: "produced world0 (snd (lambda_handler stub_json (py ''bkt'') (py ''raw/a.pdf'')
              [None, Some (py '' '')] world0)) = [] \<and>
           requests (snd (lambda_handler stub_json (py ''bkt'') (py ''raw/a.pdf'')
              [None, Some (py '' '')] world0)) = []"
    unfolding handler_blank by (simp add: world0_def)
  from a b show ?thesis by simp
qed

subsection \<open>C8: the snippet of the error report\<close>

text \<open>
  C8. The claim has the error report hold up to 2000 characters of the last raw model
  reply. \<open>raw_llm_output\<close> is only assigned when \<open>call_hf_extract\<close> returns, so in the
  \<open>except\<close> branch it is still \<open>None\<close>: every error report the handler writes has the
  empty snippet, whatever the model replied. The witness is an invocation whose six
  replies were all \<open>not json\<close>; it ends with status 200 and the report written.
\<close>

theorem error_report_snippet_empty:
  assumes "lambda_handler ev bucket key pages w = (resp, w')"
    and "(k, ErrorReport src e h snippet) \<in> set (produced w w')"
  shows "snippet = []"
proof (cases "\<not> startswith_py (py ''raw/'') key \<or> \<not> endswith_py (py ''.pdf'') (lower_py key)")
  case True
  with assms(1) have "w' = w" by (auto simp add: lambda_handler_def)
  with assms(2) show ?thesis by (simp add: produced_def)
next
  case False
  then have tgt: "startswith_py (py ''raw/'') key" "endswith_py (py ''.pdf'') (lower_py key)"
    by simp_all
  define w2 where "w2 = put_object (meta_key key)
      (Metadata (source_pdf bucket key) (length pages) (length (extracted_text_of pages)))
      (put_object (text_key key) (TextFile (extracted_text_of pages)) w)"
  obtain r w3 where c: "call_hf_extract ev (extracted_text_of pages) w2 = (r, w3)"
    by (cases "call_hf_extract ev (extracted_text_of pages) w2")
  have p3: "puts w3 = puts w @ [(text_key key, TextFile (extracted_text_of pages)),
      (meta_key key, Metadata (source_pdf bucket key) (length pages) (length (extracted_text_of pages)))]"
    using call_hf_extract_puts [OF c] by (simp add: w2_def put_object_def)
  show ?thesis
  proof (cases "strip_py (extracted_text_of pages) = []")
    case True
    with tgt assms(1) have "w' = w2" by (simp add: lambda_handler_def Let_def w2_def)
    with assms(2) show ?thesis by (simp add: produced_def w2_def put_object_def is_result_def)
  next
    case nb: False
    show ?thesis
    proof (cases r)
      case (Inl x)
      with tgt assms(1) nb c have "w' = put_object (err_key key)
          (ErrorReport (source_pdf bucket key) x hint []) w3"
        by (simp add: lambda_handler_def Let_def w2_def)
      with p3 assms(2) show ?thesis by (simp add: produced_def put_object_def is_result_def)
    next
      case (Inr x)
      obtain j raw where x: "x = (j, raw)" by (cases x)
      with Inr tgt assms(1) nb c have "w' = put_object (structured_key key) (StructuredRecord j) w3"
        by (simp add: lambda_handler_def Let_def w2_def)
      with p3 assms(2) show ?thesis by (simp add: produced_def put_object_def is_result_def)
    qed
  qed
qed

theorem error_report_snippet_empty_witness:
  "lambda_handler stub_garbage (py ''bkt'') (py ''raw/a.pdf'') [Some (py ''hello'')] world0 =
     (Response 200 (py ''processed_but_llm_failed''),
      \<lparr>requests = [base_messages (py ''hello''), repair_messages (py ''not json''),
                   base_messages (py ''hello''), repair_messages (py ''not json''),
                   base_messages (py ''hello''), repair_messages (py ''not json'')],
       sleeps = [5 / 4, 9 / 4, 17 / 4],
       puts = [(py ''processed/a.txt'', TextFile (py ''hello'')),
               (py ''processed/a.json'', Metadata (py ''s3://bkt/raw/a.pdf'') 1 5),
               (py ''processed/a.structured.error.json'',
                ErrorReport (py ''s3://bkt/raw/a.pdf'')
                  (RuntimeError_retries (Some (ParseRepairDetail
                     (ValueError (py ''No JSON object found in output: not json''))
                     (ValueError (py ''No JSON object found in output: not json'')))))
                  hint [])]\<rparr>)"
  using error_report_snippet_empty [OF handler_stub_garbage,
      of "py ''processed/a.structured.error.json''" "py ''s3://bkt/raw/a.pdf''"
         "RuntimeError_retries (Some (ParseRepairDetail
                     (ValueError (py ''No JSON object found in output: not json''))
                     (ValueError (py ''No JSON object found in output: not json''))))"
         hint "[]"]
  by (simp add: handler_stub_garbage)

subsection \<open>C9: the document string in the request\<close>

text \<open>
  C9, as stated, has every page string joined. The handler keeps only the pages whose
  text is not empty after trimming: for the pages \<open>a\<close>, the empty string and \<open>b\<close> the
  request carries \<open>a\n\nb\<close>, not the join \<open>a\n\n\n\nb\<close> of all three.
\<close>

theorem blank_pages_are_dropped:
  "extracted_text_of [Some (py ''a''), Some [], Some (py ''b'')] = py ''a\<newline>\<newline>b'' \<and>
   join_py (py ''\<newline>\<newline>'') [py ''a'', [], py ''b''] = py ''a\<newline>\<newline>\<newline>\<newline>b'' \<and>
   requests (snd (lambda_handler stub_json (py ''bkt'') (py ''raw/a.pdf'')
       [Some (py ''a''), Some [], Some (py ''b'')] world0)) =
     [base_messages (py ''a\<newline>\<newline>b'')] \<and>
   base_messages (py ''a\<newline>\<newline>b'') \<noteq>
     base_messages (take 8000 (join_py (py ''\<newline>\<newline>'') [py ''a'', [], py ''b'']))"
proof -
  have e: "extracted_text_of [Some (py ''a''), Some [], Some (py ''b'')] = py ''a\<newline>\<newline>b''"
    by (simp add: extracted_text_of_def strip_py_def isspace_def py_def)
  have j: "join_py (py ''\<newline>\<newline>'') [py ''a'', [], py ''b''] = py ''a\<newline>\<newline>\<newline>\<newline>b''"
    by (simp add: py_def)
  have h: "requests (snd (lambda_handler stub_json (py ''bkt'') (py ''raw/a.pdf'')
       [Some (py ''a''), Some [], Some (py ''b'')] world0)) = [base_messages (py ''a\<newline>\<newline>b'')]"
    by (simp add: handler_defs Let_def call_stub_json world0_def py_def strip_py_def isspace_def)
  have n: "base_messages (py ''a\<newline>\<newline>b'') \<noteq>
     base_messages (take 8000 (join_py (py ''\<newline>\<newline>'') [py ''a'', [], py ''b'']))"
  proof -
    obtain hd_rest where p: "prompt_head = 10 # 82 # hd_rest" using prompt_head_starts by blast
    have "strip_py ([10] @ 82 # (hd_rest @ [97, 10, 10]) @ 98 # [10]) = 82 # (hd_rest @ [97, 10, 10]) @ [98]"
      by (rule strip_py_core) (simp_all add: isspace_def)
    moreover
    have "strip_py ([10] @ 82 # (hd_rest @ [97, 10, 10, 10, 10]) @ 98 # [10]) =
            82 # (hd_rest @ [97, 10, 10, 10, 10]) @ [98]"
      by (rule strip_py_core) (simp_all add: isspace_def)
    ultimately show ?thesis
      by (simp add: base_messages_def p py_def)
  qed
  from e j h n show ?thesis by blast
qed

text \<open>
  C9, amended. For a key that the handler processes, a token set and an extracted text
  that is not empty after trimming, the first request carries the system instruction and
  a user message that is the prompt template, then the document string, then a newline,
  trimmed as a whole; the document string is the first 8000 characters (at most) of the
  page strings that are not empty after trimming (a page without text counting as
  empty), in order, joined by two newlines.
\<close>

theorem submitted_document_string:
  assumes "startswith_py (py ''raw/'') key" and "endswith_py (py ''.pdf'') (lower_py key)"
    and "token ev = Some tk" and "tk \<noteq> []"
    and "strip_py (extracted_text_of pages) \<noteq> []"
    and "lambda_handler ev bucket key pages w = (resp, w')"
  shows "\<exists>doc more.
           doc = take 8000 (join_py (py ''\<newline>\<newline>'')
                   (filter (\<lambda>t. strip_py t \<noteq> [])
                      (map (\<lambda>p. case p of None \<Rightarrow> [] | Some t \<Rightarrow> t) pages))) \<and>
           length doc \<le> 8000 \<and>
           requests w' = requests w @
             [(py ''system'',
               py ''Return ONLY valid JSON. No markdown, no comments, no trailing commas, no extra text.''),
              (py ''user'', strip_py (prompt_head @ doc @ py ''\<newline>''))] # more"
proof -
  define w2 where "w2 = put_object (meta_key key)
      (Metadata (source_pdf bucket key) (length pages) (length (extracted_text_of pages)))
      (put_object (text_key key) (TextFile (extracted_text_of pages)) w)"
  obtain r w3 where c: "call_hf_extract ev (extracted_text_of pages) w2 = (r, w3)"
    by (cases "call_hf_extract ev (extracted_text_of pages) w2")
  with assms(3,4) have "attempts_loop ev (take 8000 (extracted_text_of pages)) [1, 2, 3] None w2 = (r, w3)"
    by (simp add: call_hf_extract_unfold)
  from attempts_loop_first_request [OF this] obtain more where
    m: "requests w3 = requests w @ base_messages (take 8000 (extracted_text_of pages)) # more"
    by (auto simp add: w2_def put_object_def)
  have "requests w' = requests w3"
  proof (cases r)
    case (Inl e)
    with assms c show ?thesis by (auto simp add: lambda_handler_def Let_def w2_def put_object_def)
  next
    case (Inr x)
    obtain j raw where "x = (j, raw)" by (cases x)
    with Inr assms c show ?thesis by (auto simp add: lambda_handler_def Let_def w2_def put_object_def)
  qed
  with m show ?thesis by (simp add: base_messages_def extracted_text_of_def)
qed

theorem submitted_document_string_witness:
  "requests (snd (lambda_handler stub_json (py ''bkt'') (py ''raw/a.pdf'')
       [Some (py ''a''), Some [], None, Some (py ''b'')] world0)) =
     [ [(py ''system'',
         py ''Return ONLY valid JSON. No markdown, no comments, no trailing commas, no extra text.''),
        (py ''user'', strip_py (prompt_head @ py ''a\<newline>\<newline>b'' @ py ''\<newline>''))] ]"
proof -
  have k: "startswith_py (py ''raw/'') (py ''raw/a.pdf'')"
    "endswith_py (py ''.pdf'') (lower_py (py ''raw/a.pdf''))"
    by (simp_all add: startswith_py_def endswith_py_def lower_py_def py_def)
  have tk: "token stub_json = Some (py ''hf_x'')" "py ''hf_x'' \<noteq> []"
    by (simp_all add: stub_json_def py_def)
  have e: "extracted_text_of [Some (py ''a''), Some [], None, Some (py ''b'')] = py ''a\<newline>\<newline>b''"
    by (simp add: extracted_text_of_def strip_py_def isspace_def py_def)
  have nb: "strip_py (extracted_text_of [Some (py ''a''), Some [], None, Some (py ''b'')]) \<noteq> []"
    unfolding e by (simp add: strip_py_def isspace_def py_def)
  have h: "lambda_handler stub_json (py ''bkt'') (py ''raw/a.pdf'')
       [Some (py ''a''), Some [], None, Some (py ''b'')] world0 =
     (Response 200 (py ''processed_with_llm''),
      \<lparr>requests = [base_messages (py ''a\<newline>\<newline>b'')], sleeps = [],
       puts = [(py ''processed/a.txt'', TextFile (py ''a\<newline>\<newline>b'')),
               (py ''processed/a.json'', Metadata (py ''s3://bkt/raw/a.pdf'') 4 4),
               (py ''processed/a.structured.json'', StructuredRecord (JObject []))]\<rparr>)"
    by (simp add: handler_defs Let_def call_stub_json world0_def py_def strip_py_def isspace_def)
  from submitted_document_string [OF k tk nb h]
  show ?thesis
    unfolding h by (simp add: base_messages_def)
qed

subsection \<open>C4: an object wrapped in prose\<close>




subsection \<open>C5: the quote repair\<close>

text \<open>
  C5. The claim has the curly double and single quotation marks replaced by their ASCII
  equivalents before parsing. The three \<open>replace\<close> calls cover U+201C, U+201D and
  U+2019; the left single quotation mark U+2018 is not among them. For the reply
  \<open>{"a": "\<ldots>"}\<close> whose string is \<open>x\<close> between U+2018 and U+2019, the right mark becomes
  \<open>'\<close> and the left one is still there in the parsed value.
\<close>

theorem left_single_quote_not_replaced:
  "replace_py 8217 39 (replace_py 8221 34 (replace_py 8220 34
      [123, 34, 97, 34, 58, 32, 34, 8216, 120, 8217, 34, 125])) =
     [123, 34, 97, 34, 58, 32, 34, 8216, 120, 39, 34, 125] \<and>
   extract_json_object [123, 34, 97, 34, 58, 32, 34, 8216, 120, 8217, 34, 125] =
     Inr (JObject [(py ''a'', JString [8216, 120, 39])])"
  by (simp add: extract_json_object_def eval_defs)

end
